theory Spec2Isabelle
  imports Main "HOL-Library.Sublist" "HOL-Library.Multiset"
begin

section \<open>Data model (app/models.py)\<close>

text \<open>
  A Python \<open>str\<close> is represented by the list of bytes of its UTF-8 encoding, so a HOL
  \<open>string\<close> stands for both \<open>str\<close> and \<open>bytes\<close>; a literal such as \<open>''openai''\<close> is
  the same in both readings. Python integers are \<open>int\<close>. A \<open>DateTime\<close> column is a
  point on a discrete time line (\<open>nat\<close>).
\<close>

datatype ProviderEnum = OPENAI | ANTHROPIC

datatype MessageRoleEnum = USER | ASSISTANT | SYSTEM

text \<open>The \<open>.value\<close> of the two string enums.\<close>

fun provider_value :: "ProviderEnum \<Rightarrow> string" where
  "provider_value OPENAI = ''openai''"
| "provider_value ANTHROPIC = ''anthropic''"

fun role_value :: "MessageRoleEnum \<Rightarrow> string" where
  "role_value USER = ''user''"
| "role_value ASSISTANT = ''assistant''"
| "role_value SYSTEM = ''system''"

section \<open>The agent factory (app/services/ai_service.py)\<close>

text \<open>
  The three service classes wrap provider SDK clients. What \<open>AgentFactory.create\<close>
  decides is which class is constructed, for which provider, with which key and model;
  that is what a service value records. \<open>model or d\<close> is Python's \<open>or\<close> on an
  \<open>Optional[str]\<close>: the default replaces \<open>None\<close> and the empty string.
\<close>

datatype llm = ChatOpenAI string string | ChatAnthropic string string

datatype AIService =
    LangGraphService llm
  | OpenAIDirectService string string
  | AnthropicDirectService string string

text \<open>
  The exceptions that occur: FastAPI's \<open>HTTPException\<close> with its status code and
  detail, Python's \<open>ValueError\<close> (and its subclasses) with its text and
  \<open>UnicodeDecodeError\<close>, the cryptography library's \<open>InvalidToken\<close>, SQLAlchemy's
  \<open>PendingRollbackError\<close>, and \<open>Exception s\<close> for any other exception \<open>e\<close> with
  \<open>str(e) = s\<close> (an agent SDK's or the database driver's).
\<close>

datatype exn =
    HTTPException nat string
  | ValueError string
  | InvalidToken
  | UnicodeDecodeError
  | PendingRollbackError
  | Exception string

text \<open>
  The constructors of the provider SDKs (\<open>ChatOpenAI\<close>, \<open>ChatAnthropic\<close>,
  \<open>create_react_agent\<close>, \<open>AsyncOpenAI\<close>, \<open>AsyncAnthropic\<close>) are not part of this
  program and may refuse their arguments, an empty key for one. So what each raises is a
  parameter: the exception for the given arguments, \<open>None\<close> where the call returns.
\<close>

record SDK =
  ChatOpenAI_raises :: "string \<Rightarrow> string \<Rightarrow> exn option"
  ChatAnthropic_raises :: "string \<Rightarrow> string \<Rightarrow> exn option"
  create_react_agent_raises :: "llm \<Rightarrow> exn option"
  AsyncOpenAI_raises :: "string \<Rightarrow> exn option"
  AsyncAnthropic_raises :: "string \<Rightarrow> exn option"

definition construct :: "exn option \<Rightarrow> 'a \<Rightarrow> exn + 'a" where
  "construct raised obj = (case raised of Some e \<Rightarrow> Inl e | None \<Rightarrow> Inr obj)"

fun model_or :: "string option \<Rightarrow> string \<Rightarrow> string" where
  "model_or None d = d"
| "model_or (Some m) d = (if m = [] then d else m)"

definition LangGraphService_init ::
  "SDK \<Rightarrow> string \<Rightarrow> string \<Rightarrow> string option \<Rightarrow> exn + AIService" where
  "LangGraphService_init S api_key provider model =
     (case (if provider = ''openai''
            then construct
                   (ChatOpenAI_raises S api_key (model_or model ''gpt-4-turbo-preview''))
                   (ChatOpenAI api_key (model_or model ''gpt-4-turbo-preview''))
            else construct
                   (ChatAnthropic_raises S api_key (model_or model ''claude-3-5-sonnet-20241022''))
                   (ChatAnthropic api_key (model_or model ''claude-3-5-sonnet-20241022''))) of
        Inl e \<Rightarrow> Inl e
      | Inr llm \<Rightarrow> construct (create_react_agent_raises S llm) (LangGraphService llm))"

definition OpenAIDirectService_init :: "SDK \<Rightarrow> string \<Rightarrow> string \<Rightarrow> exn + AIService" where
  "OpenAIDirectService_init S api_key model =
     construct (AsyncOpenAI_raises S api_key) (OpenAIDirectService api_key model)"

definition AnthropicDirectService_init :: "SDK \<Rightarrow> string \<Rightarrow> string \<Rightarrow> exn + AIService" where
  "AnthropicDirectService_init S api_key model =
     construct (AsyncAnthropic_raises S api_key) (AnthropicDirectService api_key model)"

definition unknown_agent_type :: "string \<Rightarrow> string" where
  "unknown_agent_type agent_type =
     ''Unknown agent_type: '' @ agent_type @ ''. '' @
     ''Supported: langgraph, openai_direct, anthropic_direct''"

definition create ::
  "SDK \<Rightarrow> string \<Rightarrow> string \<Rightarrow> string \<Rightarrow> string option \<Rightarrow> exn + AIService" where
  "create S agent_type provider api_key model =
     (if agent_type = ''langgraph'' then
        LangGraphService_init S api_key provider model
      else if agent_type = ''openai_direct'' then
        (if provider \<noteq> ''openai''
         then Inl (ValueError ''openai_direct agent requires openai provider'')
         else OpenAIDirectService_init S api_key (model_or model ''gpt-4-turbo-preview''))
      else if agent_type = ''anthropic_direct'' then
        (if provider \<noteq> ''anthropic''
         then Inl (ValueError ''anthropic_direct agent requires anthropic provider'')
         else AnthropicDirectService_init S api_key
                (model_or model ''claude-3-5-sonnet-20241022''))
      else Inl (ValueError (unknown_agent_type agent_type)))"

text \<open>
  The SDK constructors that \<open>create\<close> can reach with this key and model all return.
\<close>

definition constructors_accept :: "SDK \<Rightarrow> string \<Rightarrow> string option \<Rightarrow> bool" where
  "constructors_accept S api_key model \<longleftrightarrow>
     ChatOpenAI_raises S api_key (model_or model ''gpt-4-turbo-preview'') = None \<and>
     create_react_agent_raises S
       (ChatOpenAI api_key (model_or model ''gpt-4-turbo-preview'')) = None \<and>
     ChatAnthropic_raises S api_key (model_or model ''claude-3-5-sonnet-20241022'') = None \<and>
     create_react_agent_raises S
       (ChatAnthropic api_key (model_or model ''claude-3-5-sonnet-20241022'')) = None \<and>
     AsyncOpenAI_raises S api_key = None \<and>
     AsyncAnthropic_raises S api_key = None"

section \<open>Credential encryption (app/services/encryption.py)\<close>

text \<open>
  \<open>Fernet\<close> belongs to the cryptography library, not to this program, so it is a
  parameter: which keys the constructor accepts, the token \<open>encrypt\<close> makes from a key,
  the fresh randomness and time it draws (its initialisation vector and timestamp) and
  the plaintext, and what \<open>decrypt\<close> recovers from a token (\<open>None\<close> where the library
  raises \<open>InvalidToken\<close>).
\<close>

record Fernet =
  key_accepted :: "string \<Rightarrow> bool"
  encrypt :: "string \<Rightarrow> string \<times> nat \<Rightarrow> string \<Rightarrow> string"
  decrypt :: "string \<Rightarrow> string \<Rightarrow> string option"

text \<open>
  With a \<open>str\<close> held as its UTF-8 bytes, \<open>s.encode()\<close> returns the bytes unchanged and
  \<open>b.decode()\<close> returns them if they are well-formed UTF-8 (the byte ranges of the Unicode
  standard, which Python's strict decoder enforces) and raises \<open>UnicodeDecodeError\<close>
  otherwise.
\<close>

definition byte_in :: "nat \<Rightarrow> nat \<Rightarrow> char \<Rightarrow> bool" where
  "byte_in lo hi c = (lo \<le> of_char c \<and> (of_char c :: nat) \<le> hi)"

fun tail_ok :: "(nat \<times> nat) list \<Rightarrow> string \<Rightarrow> bool" where
  "tail_ok [] bs = True"
| "tail_ok ((lo, hi) # rs) [] = False"
| "tail_ok ((lo, hi) # rs) (b # bs) = (byte_in lo hi b \<and> tail_ok rs bs)"

fun utf8_valid :: "string \<Rightarrow> bool" where
  "utf8_valid [] = True"
| "utf8_valid (a # r) =
     (if byte_in 0x00 0x7F a then utf8_valid r
      else if byte_in 0xC2 0xDF a then tail_ok [(0x80, 0xBF)] r \<and> utf8_valid (drop 1 r)
      else if byte_in 0xE0 0xE0 a then
        tail_ok [(0xA0, 0xBF), (0x80, 0xBF)] r \<and> utf8_valid (drop 2 r)
      else if byte_in 0xE1 0xEC a \<or> byte_in 0xEE 0xEF a then
        tail_ok [(0x80, 0xBF), (0x80, 0xBF)] r \<and> utf8_valid (drop 2 r)
      else if byte_in 0xED 0xED a then
        tail_ok [(0x80, 0x9F), (0x80, 0xBF)] r \<and> utf8_valid (drop 2 r)
      else if byte_in 0xF0 0xF0 a then
        tail_ok [(0x90, 0xBF), (0x80, 0xBF), (0x80, 0xBF)] r \<and> utf8_valid (drop 3 r)
      else if byte_in 0xF1 0xF3 a then
        tail_ok [(0x80, 0xBF), (0x80, 0xBF), (0x80, 0xBF)] r \<and> utf8_valid (drop 3 r)
      else if byte_in 0xF4 0xF4 a then
        tail_ok [(0x80, 0x8F), (0x80, 0xBF), (0x80, 0xBF)] r \<and> utf8_valid (drop 3 r)
      else False)"

definition decode :: "string \<Rightarrow> exn + string" where
  "decode b = (if utf8_valid b then Inr b else Inl UnicodeDecodeError)"

text \<open>
  Modelled from the spec: the symmetric authenticated-encryption primitive that the
  program consumes and does not implement (the cryptography library's Fernet is not part
  of the source). Under an accepted key, \<open>decrypt\<close> inverts \<open>encrypt\<close>; a token made
  from text is text; a token that \<open>encrypt\<close> did not make under this key (malformed or
  forged) is rejected, and so is a token made under a different key.
\<close>

definition authenticated_encryption :: "Fernet \<Rightarrow> bool" where
  "authenticated_encryption F \<longleftrightarrow>
     (\<forall>k fresh p. key_accepted F k \<longrightarrow> decrypt F k (encrypt F k fresh p) = Some p) \<and>
     (\<forall>k fresh p. key_accepted F k \<longrightarrow> utf8_valid p \<longrightarrow> utf8_valid (encrypt F k fresh p)) \<and>
     (\<forall>k t. key_accepted F k \<longrightarrow> (\<forall>fresh p. t \<noteq> encrypt F k fresh p) \<longrightarrow> decrypt F k t = None) \<and>
     (\<forall>k k' fresh p. key_accepted F k \<longrightarrow> key_accepted F k' \<longrightarrow> k' \<noteq> k \<longrightarrow>
        decrypt F k (encrypt F k' fresh p) = None)"

definition get_fernet :: "Fernet \<Rightarrow> string \<Rightarrow> exn + string" where
  "get_fernet F ENCRYPTION_KEY =
     (if key_accepted F ENCRYPTION_KEY then Inr ENCRYPTION_KEY
      else Inl (ValueError ''Fernet key must be 32 url-safe base64-encoded bytes.''))"

definition encrypt_api_key :: "Fernet \<Rightarrow> string \<Rightarrow> string \<times> nat \<Rightarrow> string \<Rightarrow> exn + string" where
  "encrypt_api_key F ENCRYPTION_KEY fresh api_key =
     (case get_fernet F ENCRYPTION_KEY of
        Inl e \<Rightarrow> Inl e
      | Inr fernet \<Rightarrow> decode (encrypt F fernet fresh api_key))"

definition decrypt_api_key :: "Fernet \<Rightarrow> string \<Rightarrow> string \<Rightarrow> exn + string" where
  "decrypt_api_key F ENCRYPTION_KEY encrypted_key =
     (case get_fernet F ENCRYPTION_KEY of
        Inl e \<Rightarrow> Inl e
      | Inr fernet \<Rightarrow>
          (case decrypt F fernet encrypted_key of
             None \<Rightarrow> Inl InvalidToken
           | Some decrypted_bytes \<Rightarrow> decode decrypted_bytes))"

section \<open>The store (app/models.py, the SQLAlchemy session)\<close>

record Conversation =
  conv_id :: int
  conv_user_id :: int
  conv_title :: "string option"
  conv_agent_type :: string
  conv_provider :: ProviderEnum
  conv_created_at :: nat
  conv_updated_at :: nat

record Message =
  msg_id :: int
  msg_conversation_id :: int
  msg_role :: MessageRoleEnum
  msg_content :: string
  msg_created_at :: nat

record ApiKey =
  key_id :: int
  key_user_id :: int
  key_provider :: ProviderEnum
  key_encrypted_key :: string

text \<open>
  The tables are lists of rows in insertion order; \<open>next_message_id\<close> is the
  auto-increment counter of the messages table.
\<close>

record database =
  conversations :: "Conversation list"
  messages :: "Message list"
  api_keys :: "ApiKey list"
  next_message_id :: int

text \<open>
  \<open>db.add(Message(...))\<close>: the row gets the next id and, as \<open>created_at\<close>, the value of
  \<open>datetime.utcnow\<close> at that moment, which the caller passes as \<open>now\<close>.
\<close>

definition add_message :: "database \<Rightarrow> nat \<Rightarrow> int \<Rightarrow> MessageRoleEnum \<Rightarrow> string \<Rightarrow> database" where
  "add_message db now conversation_id role content =
     db\<lparr>messages := messages db @
          [\<lparr>msg_id = next_message_id db, msg_conversation_id = conversation_id,
            msg_role = role, msg_content = content, msg_created_at = now\<rparr>],
        next_message_id := next_message_id db + 1\<rparr>"

text \<open>
  \<open>db.commit()\<close> on a session whose earlier commits all succeeded either makes the
  pending state durable or raises and leaves the store as it was. \<open>fault\<close> is the text
  \<open>str(e)\<close> of the exception the store raises at this commit, if any; \<open>Inl\<close> carries
  that text. After a commit that raised, the session's transaction stays rolled back
  until \<open>db.rollback()\<close> is called, and a further commit raises
  \<open>PendingRollbackError\<close>; the one place where the source commits after a failed commit
  is the \<open>except\<close> branch of \<open>generate\<close>. Queries are taken not to fail.
\<close>

definition commit :: "string option \<Rightarrow> database \<Rightarrow> string + database" where
  "commit fault pending = (case fault of Some str_e \<Rightarrow> Inl str_e | None \<Rightarrow> Inr pending)"

text \<open>
  \<open>order_by(Message.created_at.asc())\<close> and \<open>.desc()\<close>: the database returns the rows
  sorted by \<open>created_at\<close>, and the order among rows of equal \<open>created_at\<close> is its own
  choice. So the two orderings are parameters, and \<open>orders_by_created_at\<close> says what
  \<open>ORDER BY\<close> guarantees of them on the rows \<open>ms\<close>: the same rows, sorted.
\<close>

record Engine =
  order_by_created_at_asc :: "Message list \<Rightarrow> Message list"
  order_by_created_at_desc :: "Message list \<Rightarrow> Message list"


text \<open>
  Both chat routes build the history in the same way: the 20 latest messages of the
  conversation, newest first, then \<open>reversed\<close>, each as its role and content.
\<close>

definition load_history :: "Engine \<Rightarrow> database \<Rightarrow> int \<Rightarrow> (string \<times> string) list" where
  "load_history G db conversation_id =
     (let history_messages =
            take 20 (order_by_created_at_desc G
              (filter (\<lambda>m. msg_conversation_id m = conversation_id) (messages db)))
      in map (\<lambda>msg. (role_value (msg_role msg), msg_content msg)) (rev history_messages))"

section \<open>Chat routes (app/routes/chat.py)\<close>

text \<open>
  What a turn takes from outside the program: the cryptography library and the
  configured key; the provider SDKs' constructors; the database's orderings; the text an f-string gives for a provider enum member (it differs
  between Python versions); the agent, as the chunks \<open>service.chat\<close> yields and the text
  \<open>str(e)\<close> of the exception that ends the sequence, if one does (the sequence is
  finite); the clock at the moment each message row is created; and the exception text
  of each commit that fails. The caller reads the stream to its end.
\<close>

record env =
  fernet_lib :: Fernet
  ENCRYPTION_KEY :: string
  sdk :: SDK
  engine :: Engine
  format_provider :: "ProviderEnum \<Rightarrow> string"
  chat :: "AIService \<Rightarrow> string \<Rightarrow> (string \<times> string) list \<Rightarrow> string list \<times> string option"
  now_user :: nat
  now_assistant :: nat
  now_error :: nat
  fault_user_commit :: "string option"
  fault_assistant_commit :: "string option"
  fault_error_commit :: "string option"

record ChatRequest =
  req_conversation_id :: int
  req_message :: string

text \<open>
  What the generator of the streaming route does, in order: \<open>Yield f\<close> hands the frame
  \<open>f\<close> to the caller, \<open>Persisted m\<close> is a committed insert of the row \<open>m\<close>.
\<close>

datatype event = Yield string | Persisted Message

abbreviation nl :: char where
  "nl \<equiv> CHR 0x0A"

definition frame :: "string \<Rightarrow> string" where
  "frame text = ''data: '' @ text @ [nl, nl]"

text \<open>
  The \<open>async for\<close> loop over the chunks that arrive: each is added to
  \<open>full_response\<close> and yielded as a frame.
\<close>

fun consume :: "string list \<Rightarrow> string \<Rightarrow> event list \<Rightarrow> string \<times> event list" where
  "consume [] full_response out = (full_response, out)"
| "consume (chunk # rest) full_response out =
     consume rest (full_response @ chunk) (out @ [Yield (frame chunk)])"

text \<open>
  \<open>db.add\<close> and \<open>db.commit\<close> of one message: the new store and the row, or the text
  \<open>str(e)\<close> of the exception of the commit.
\<close>

definition save_message ::
  "string option \<Rightarrow> database \<Rightarrow> nat \<Rightarrow> int \<Rightarrow> MessageRoleEnum \<Rightarrow> string \<Rightarrow> string + database \<times> Message" where
  "save_message fault db now conversation_id role content =
     (case commit fault (add_message db now conversation_id role content) of
        Inl str_e \<Rightarrow> Inl str_e
      | Inr db' \<Rightarrow> Inr (db', last (messages db')))"

text \<open>
  The \<open>except Exception as e\<close> branch of \<open>generate\<close>, entered with \<open>str(e)\<close> and with
  whether \<open>e\<close> was raised by the commit of this session (\<open>commit_failed\<close>). The
  branch does not call \<open>db.rollback()\<close>, so after a failed commit its own commit raises
  \<open>PendingRollbackError\<close>, which leaves the generator.
\<close>

definition on_exception ::
  "env \<Rightarrow> bool \<Rightarrow> database \<Rightarrow> ChatRequest \<Rightarrow> event list \<Rightarrow> string
     \<Rightarrow> (event list \<times> exn option) \<times> database" where
  "on_exception E commit_failed db request out str_e =
     (let error_msg = ''Error: '' @ str_e;
          out = out @ [Yield (frame error_msg)]
      in if commit_failed then ((out, Some PendingRollbackError), db)
         else
           case save_message (fault_error_commit E) db (now_error E)
                  (req_conversation_id request) ASSISTANT (''[Error: '' @ str_e @ '']'') of
             Inl str_e' \<Rightarrow> ((out, Some (Exception str_e')), db)
           | Inr (db', assistant_message) \<Rightarrow>
               ((out @ [Persisted assistant_message], None), db'))"

text \<open>
  \<open>generate\<close>: the events in order, the exception that leaves the generator (if any),
  and the store afterwards.
\<close>

definition generate ::
  "env \<Rightarrow> database \<Rightarrow> ChatRequest \<Rightarrow> AIService \<Rightarrow> (string \<times> string) list
     \<Rightarrow> (event list \<times> exn option) \<times> database" where
  "generate E db request service history =
     (let (chunks, failure) = chat E service (req_message request) history;
          (full_response, out) = consume chunks [] []
      in case failure of
           Some str_e \<Rightarrow> on_exception E False db request out str_e
         | None \<Rightarrow>
             (let out = out @ [Yield (frame ''[DONE]'')]
              in case save_message (fault_assistant_commit E) db (now_assistant E)
                        (req_conversation_id request) ASSISTANT full_response of
                   Inl str_e \<Rightarrow> on_exception E True db request out str_e
                 | Inr (db', assistant_message) \<Rightarrow>
                     ((out @ [Persisted assistant_message], None), db')))"

definition chat_stream ::
  "env \<Rightarrow> database \<Rightarrow> ChatRequest \<Rightarrow> int \<Rightarrow> (exn + event list \<times> exn option) \<times> database" where
  "chat_stream E db request current_user =
     (case find (\<lambda>c. conv_id c = req_conversation_id request \<and> conv_user_id c = current_user)
             (conversations db) of
        None \<Rightarrow> (Inl (HTTPException 404 ''Conversation not found''), db)
      | Some conversation \<Rightarrow>
     (case find (\<lambda>k. key_user_id k = current_user \<and> key_provider k = conv_provider conversation)
             (api_keys db) of
        None \<Rightarrow>
          (Inl (HTTPException 400
             (''No API key configured for '' @ format_provider E (conv_provider conversation))), db)
      | Some api_key_record \<Rightarrow>
     (case decrypt_api_key (fernet_lib E) (ENCRYPTION_KEY E) (key_encrypted_key api_key_record) of
        Inl e \<Rightarrow> (Inl e, db)
      | Inr api_key \<Rightarrow>
     (let history = load_history (engine E) db (req_conversation_id request)
      in case save_message (fault_user_commit E) db (now_user E) (req_conversation_id request)
                USER (req_message request) of
        Inl str_e \<Rightarrow> (Inl (Exception str_e), db)
      | Inr (db, user_message) \<Rightarrow>
     (case create (sdk E) (conv_agent_type conversation)
             (provider_value (conv_provider conversation)) api_key None of
        Inl (ValueError str_e) \<Rightarrow> (Inl (HTTPException 400 str_e), db)
      | Inl e \<Rightarrow> (Inl e, db)
      | Inr service \<Rightarrow>
          (let (response, db) = generate E db request service history
           in (Inr response, db)))))))"

text \<open>The reply of the blocking route: \<open>message\<close> and \<open>message_id\<close>.\<close>

definition chat_message ::
  "env \<Rightarrow> database \<Rightarrow> ChatRequest \<Rightarrow> int \<Rightarrow> (exn + string \<times> int) \<times> database" where
  "chat_message E db request current_user =
     (case find (\<lambda>c. conv_id c = req_conversation_id request \<and> conv_user_id c = current_user)
             (conversations db) of
        None \<Rightarrow> (Inl (HTTPException 404 ''Conversation not found''), db)
      | Some conversation \<Rightarrow>
     (case find (\<lambda>k. key_user_id k = current_user \<and> key_provider k = conv_provider conversation)
             (api_keys db) of
        None \<Rightarrow>
          (Inl (HTTPException 400
             (''No API key configured for '' @ format_provider E (conv_provider conversation))), db)
      | Some api_key_record \<Rightarrow>
     (case decrypt_api_key (fernet_lib E) (ENCRYPTION_KEY E) (key_encrypted_key api_key_record) of
        Inl e \<Rightarrow> (Inl e, db)
      | Inr api_key \<Rightarrow>
     (let history = load_history (engine E) db (req_conversation_id request)
      in case save_message (fault_user_commit E) db (now_user E) (req_conversation_id request)
                USER (req_message request) of
        Inl str_e \<Rightarrow> (Inl (Exception str_e), db)
      | Inr (db, user_message) \<Rightarrow>
     (case create (sdk E) (conv_agent_type conversation)
             (provider_value (conv_provider conversation)) api_key None of
        Inl (ValueError str_e) \<Rightarrow> (Inl (HTTPException 400 str_e), db)
      | Inl e \<Rightarrow> (Inl e, db)
      | Inr service \<Rightarrow>
     (let (chunks, failure) = chat E service (req_message request) history;
          full_response = foldl (@) [] chunks
      in case failure of
           Some str_e \<Rightarrow> (Inl (HTTPException 500 str_e), db)
         | None \<Rightarrow>
             (case save_message (fault_assistant_commit E) db (now_assistant E)
                     (req_conversation_id request) ASSISTANT full_response of
                Inl str_e \<Rightarrow> (Inl (Exception str_e), db)
              | Inr (db, assistant_message) \<Rightarrow>
                  (Inr (full_response, msg_id assistant_message), db))))))))"

section \<open>Conversation routes (app/routes/conversations.py)\<close>

definition get_conversation ::
  "Engine \<Rightarrow> database \<Rightarrow> int \<Rightarrow> int \<Rightarrow> exn + Conversation \<times> Message list" where
  "get_conversation G db conversation_id current_user =
     (case find (\<lambda>c. conv_id c = conversation_id \<and> conv_user_id c = current_user)
             (conversations db) of
        None \<Rightarrow> Inl (HTTPException 404 ''Conversation not found'')
      | Some conversation \<Rightarrow>
          Inr (conversation,
               order_by_created_at_asc G
                 (filter (\<lambda>m. msg_conversation_id m = conversation_id) (messages db))))"

text \<open>
  \<open>update_conversation\<close> and \<open>delete_conversation\<close> change the row with the primary
  key of the conversation found; the delete cascades to its messages. \<open>now\<close> is
  \<open>datetime.utcnow()\<close>, \<open>fault\<close> as for \<open>commit\<close>.
\<close>

definition update_conversation ::
  "string option \<Rightarrow> nat \<Rightarrow> database \<Rightarrow> int \<Rightarrow> string \<Rightarrow> int \<Rightarrow> (exn + Conversation) \<times> database" where
  "update_conversation fault now db conversation_id title current_user =
     (case find (\<lambda>c. conv_id c = conversation_id \<and> conv_user_id c = current_user)
             (conversations db) of
        None \<Rightarrow> (Inl (HTTPException 404 ''Conversation not found''), db)
      | Some conversation \<Rightarrow>
          (let conversation = conversation\<lparr>conv_title := Some title, conv_updated_at := now\<rparr>
           in case commit fault
                  (db\<lparr>conversations :=
                        map (\<lambda>c. if conv_id c = conv_id conversation then conversation else c)
                          (conversations db)\<rparr>) of
                Inl str_e \<Rightarrow> (Inl (Exception str_e), db)
              | Inr db' \<Rightarrow> (Inr conversation, db')))"

definition delete_conversation ::
  "string option \<Rightarrow> database \<Rightarrow> int \<Rightarrow> int \<Rightarrow> (exn + unit) \<times> database" where
  "delete_conversation fault db conversation_id current_user =
     (case find (\<lambda>c. conv_id c = conversation_id \<and> conv_user_id c = current_user)
             (conversations db) of
        None \<Rightarrow> (Inl (HTTPException 404 ''Conversation not found''), db)
      | Some conversation \<Rightarrow>
          (case commit fault
                  (db\<lparr>conversations :=
                        filter (\<lambda>c. conv_id c \<noteq> conv_id conversation) (conversations db),
                      messages :=
                        filter (\<lambda>m. msg_conversation_id m \<noteq> conv_id conversation) (messages db)\<rparr>) of
             Inl str_e \<Rightarrow> (Inl (Exception str_e), db)
           | Inr db' \<Rightarrow> (Inr (), db')))"

text \<open>\<open>skip\<close> and \<open>limit\<close> are an offset and a row count, so not negative.\<close>

definition get_messages ::
  "Engine \<Rightarrow> database \<Rightarrow> int \<Rightarrow> int \<Rightarrow> nat \<Rightarrow> nat \<Rightarrow> exn + Message list" where
  "get_messages G db conversation_id current_user skip limit =
     (case find (\<lambda>c. conv_id c = conversation_id \<and> conv_user_id c = current_user)
             (conversations db) of
        None \<Rightarrow> Inl (HTTPException 404 ''Conversation not found'')
      | Some conversation \<Rightarrow>
          Inr (take limit (drop skip
                 (order_by_created_at_asc G
                    (filter (\<lambda>m. msg_conversation_id m = conversation_id) (messages db))))))"

section \<open>Example inputs\<close>

text \<open>
  A stand-in for the cipher, used only to run the program on concrete inputs: a token is
  the plaintext behind the key as a tag, and \<open>decrypt\<close> rejects a token that does not
  carry the tag of its key.
\<close>

definition example_fernet :: Fernet where
  "example_fernet =
     \<lparr>key_accepted = (\<lambda>k. length k = 2 \<and> (\<forall>c \<in> set k. byte_in 0x00 0x7F c)),
      encrypt = (\<lambda>k fresh p. k @ p),
      decrypt = (\<lambda>k t. if take (length k) t = k then Some (drop (length k) t) else None)\<rparr>"

text \<open>SDK constructors that refuse an empty key and accept every other.\<close>

definition example_sdk :: SDK where
  "example_sdk =
     \<lparr>ChatOpenAI_raises =
        (\<lambda>api_key model. if api_key = [] then Some (ValueError ''no api key'') else None),
      ChatAnthropic_raises =
        (\<lambda>api_key model. if api_key = [] then Some (ValueError ''no api key'') else None),
      create_react_agent_raises = (\<lambda>llm. None),
      AsyncOpenAI_raises =
        (\<lambda>api_key. if api_key = [] then Some (Exception ''no api key'') else None),
      AsyncAnthropic_raises =
        (\<lambda>api_key. if api_key = [] then Some (Exception ''no api key'') else None)\<rparr>"

text \<open>
  A database that returns rows of equal \<open>created_at\<close> in insertion order, for both
  directions.
\<close>

definition example_engine :: Engine where
  "example_engine =
     \<lparr>order_by_created_at_asc = sort_key msg_created_at,
      order_by_created_at_desc = sort_key (\<lambda>m. - int (msg_created_at m))\<rparr>"

text \<open>An environment whose agent answers every call with the given chunks and failure.\<close>

definition example_env :: "string list \<times> string option \<Rightarrow> env" where
  "example_env upstream =
     \<lparr>fernet_lib = example_fernet, ENCRYPTION_KEY = ''K1'',
      sdk = example_sdk, engine = example_engine, format_provider = provider_value,
      chat = (\<lambda>service message history. upstream),
      now_user = 10, now_assistant = 11, now_error = 12,
      fault_user_commit = None, fault_assistant_commit = None, fault_error_commit = None\<rparr>"

text \<open>
  User 1 owns conversation 1 (direct completion on openai) and a credential for openai;
  user 2 owns nothing.
\<close>

definition example_db :: "string \<Rightarrow> database" where
  "example_db token =
     \<lparr>conversations =
        [\<lparr>conv_id = 1, conv_user_id = 1, conv_title = Some ''first'',
          conv_agent_type = ''openai_direct'', conv_provider = OPENAI,
          conv_created_at = 1, conv_updated_at = 1\<rparr>],
      messages = [],
      api_keys =
        [\<lparr>key_id = 1, key_user_id = 1, key_provider = OPENAI, key_encrypted_key = token\<rparr>],
      next_message_id = 1\<rparr>"

definition example_request :: ChatRequest where
  "example_request = \<lparr>req_conversation_id = 1, req_message = ''Hi''\<rparr>"


section \<open>Properties\<close>

subsection \<open>Auxiliary facts\<close>

lemma consume_eq:
  "consume chunks full_response out
     = (full_response @ concat chunks, out @ map (\<lambda>chunk. Yield (frame chunk)) chunks)"
  by (induction chunks arbitrary: full_response out) simp_all

lemma foldl_append_concat: "foldl (@) acc chunks = acc @ concat chunks"
  by (induction chunks arbitrary: acc) simp_all

lemma frame_inj: "frame a = frame b \<longleftrightarrow> a = b"
  by (simp add: frame_def)

lemma find_unique:
  assumes "distinct (map conv_id cs)" and "c \<in> set cs" and "conv_id c = i" and "conv_user_id c = u"
  shows "find (\<lambda>c. conv_id c = i \<and> conv_user_id c = u) cs = Some c"
  using assms
proof (induction cs)
  case Nil
  then show ?case by simp
next
  case (Cons a cs)
  then show ?case by (cases "a = c") (auto simp: image_iff)
qed

lemma find_other_owner:
  assumes "distinct (map conv_id cs)" and "c \<in> set cs" and "conv_user_id c \<noteq> u"
  shows "find (\<lambda>c'. conv_id c' = conv_id c \<and> conv_user_id c' = u) cs = None"
proof -
  have "\<And>c'. c' \<in> set cs \<Longrightarrow> conv_id c' = conv_id c \<Longrightarrow> c' = c"
    using assms(1,2) by (meson distinct_map inj_onD)
  with assms(3) show ?thesis by (auto simp: find_None_iff)
qed

lemma find_absent:
  assumes "\<forall>c' \<in> set cs. conv_id c' \<noteq> i"
  shows "find (\<lambda>c'. conv_id c' = i \<and> conv_user_id c' = u) cs = None"
  using assms by (auto simp: find_None_iff)

lemma not_found_everywhere:
  assumes "find (\<lambda>c. conv_id c = i \<and> conv_user_id c = u) (conversations db) = None"
    and "req_conversation_id request = i"
  shows "get_conversation G db i u = Inl (HTTPException 404 ''Conversation not found'')"
    and "update_conversation fault now db i title u
           = (Inl (HTTPException 404 ''Conversation not found''), db)"
    and "delete_conversation fault db i u = (Inl (HTTPException 404 ''Conversation not found''), db)"
    and "get_messages G db i u skip limit = Inl (HTTPException 404 ''Conversation not found'')"
    and "chat_stream E db request u = (Inl (HTTPException 404 ''Conversation not found''), db)"
    and "chat_message E db request u = (Inl (HTTPException 404 ''Conversation not found''), db)"
  using assms
  by (simp_all add: get_conversation_def update_conversation_def delete_conversation_def
      get_messages_def chat_stream_def chat_message_def)

lemma chat_stream_reaches_agent:
  assumes "find (\<lambda>c. conv_id c = req_conversation_id request \<and> conv_user_id c = current_user)
             (conversations db) = Some conversation"
    and "find (\<lambda>k. key_user_id k = current_user \<and> key_provider k = conv_provider conversation)
             (api_keys db) = Some api_key_record"
    and "decrypt_api_key (fernet_lib E) (ENCRYPTION_KEY E) (key_encrypted_key api_key_record)
           = Inr api_key"
    and "fault_user_commit E = None"
    and "create (sdk E) (conv_agent_type conversation)
           (provider_value (conv_provider conversation)) api_key None = Inr service"
  shows "chat_stream E db request current_user =
     (case generate E
             (add_message db (now_user E) (req_conversation_id request) USER (req_message request))
             request service (load_history (engine E) db (req_conversation_id request)) of
        (response, db') \<Rightarrow> (Inr response, db'))"
  using assms by (simp add: chat_stream_def save_message_def commit_def Let_def)

lemma chat_message_reaches_agent:
  assumes "find (\<lambda>c. conv_id c = req_conversation_id request \<and> conv_user_id c = current_user)
             (conversations db) = Some conversation"
    and "find (\<lambda>k. key_user_id k = current_user \<and> key_provider k = conv_provider conversation)
             (api_keys db) = Some api_key_record"
    and "decrypt_api_key (fernet_lib E) (ENCRYPTION_KEY E) (key_encrypted_key api_key_record)
           = Inr api_key"
    and "fault_user_commit E = None"
    and "create (sdk E) (conv_agent_type conversation)
           (provider_value (conv_provider conversation)) api_key None = Inr service"
    and "chat E service (req_message request) (load_history (engine E) db (req_conversation_id request))
           = (chunks, failure)"
  shows "chat_message E db request current_user =
     (let db1 = add_message db (now_user E) (req_conversation_id request) USER
                  (req_message request)
      in case failure of
           Some str_e \<Rightarrow> (Inl (HTTPException 500 str_e), db1)
         | None \<Rightarrow>
             (case fault_assistant_commit E of
                Some str_e \<Rightarrow> (Inl (Exception str_e), db1)
              | None \<Rightarrow>
                  (Inr (concat chunks, next_message_id db1),
                   add_message db1 (now_assistant E) (req_conversation_id request) ASSISTANT
                     (concat chunks))))"
  using assms
  by (simp add: chat_message_def save_message_def commit_def Let_def foldl_append_concat
      add_message_def split: option.splits)

lemma generate_failed:
  assumes "chat E service (req_message request) history = (chunks, Some str_e)"
    and "fault_error_commit E = None"
  shows "generate E db request service history =
     ((map (\<lambda>chunk. Yield (frame chunk)) chunks @
         [Yield (frame (''Error: '' @ str_e)),
          Persisted \<lparr>msg_id = next_message_id db,
                     msg_conversation_id = req_conversation_id request,
                     msg_role = ASSISTANT, msg_content = ''[Error: '' @ str_e @ '']'',
                     msg_created_at = now_error E\<rparr>], None),
      add_message db (now_error E) (req_conversation_id request) ASSISTANT
        (''[Error: '' @ str_e @ '']''))"
  using assms
  by (simp add: generate_def on_exception_def save_message_def commit_def add_message_def
      consume_eq Let_def)

lemma generate_failed_frame:
  assumes "chat E service (req_message request) history = (chunks, Some str_e)"
  shows "Yield (frame (''Error: '' @ str_e))
           \<in> set (fst (fst (generate E db request service history)))"
  using assms
  by (simp add: generate_def on_exception_def save_message_def commit_def consume_eq Let_def
      split: option.splits)

lemma generate_clean:
  assumes "chat E service (req_message request) history = (chunks, None)"
  shows "generate E db request service history =
     (case fault_assistant_commit E of
        None \<Rightarrow>
          ((map (\<lambda>chunk. Yield (frame chunk)) chunks @
              [Yield (frame ''[DONE]''),
               Persisted \<lparr>msg_id = next_message_id db,
                          msg_conversation_id = req_conversation_id request,
                          msg_role = ASSISTANT, msg_content = concat chunks,
                          msg_created_at = now_assistant E\<rparr>], None),
           add_message db (now_assistant E) (req_conversation_id request) ASSISTANT
             (concat chunks))
      | Some str_e \<Rightarrow>
          ((map (\<lambda>chunk. Yield (frame chunk)) chunks @
              [Yield (frame ''[DONE]''), Yield (frame (''Error: '' @ str_e))],
            Some PendingRollbackError), db))"
  using assms
  by (simp add: generate_def on_exception_def save_message_def commit_def add_message_def
      consume_eq Let_def split: option.splits)

lemma utf8_valid_ascii_prefix:
  "\<forall>c \<in> set k. byte_in 0x00 0x7F c \<Longrightarrow> utf8_valid (k @ p) = utf8_valid p"
  by (induction k) simp_all

lemma utf8_valid_examples:
  "utf8_valid ''sk-proj-abc''"
  "utf8_valid [CHR 0x68, CHR 0xC3, CHR 0xA9]"
  "utf8_valid [CHR 0xE2, CHR 0x82, CHR 0xAC]"
  "utf8_valid [CHR 0xF0, CHR 0x9F, CHR 0x98, CHR 0x80]"
  "\<not> utf8_valid [CHR 0xFF]"
  "\<not> utf8_valid [CHR 0xC0, CHR 0x80]"
  "\<not> utf8_valid [CHR 0xED, CHR 0xA0, CHR 0x80]"
  "\<not> utf8_valid [CHR 0xE2, CHR 0x82]"
  by (simp_all add: byte_in_def)

lemma example_fernet_fields:
  "key_accepted example_fernet k = (length k = 2 \<and> (\<forall>c \<in> set k. byte_in 0x00 0x7F c))"
  "encrypt example_fernet k fresh p = k @ p"
  "decrypt example_fernet k t
     = (if take (length k) t = k then Some (drop (length k) t) else None)"
  by (simp_all add: example_fernet_def)

lemma example_fernet_authenticated: "authenticated_encryption example_fernet"
  unfolding authenticated_encryption_def example_fernet_fields
proof (intro conjI allI impI)
  fix k t :: string
  assume made: "\<forall>(fresh :: string \<times> nat) p. t \<noteq> k @ p"
  have "take (length k) t \<noteq> k"
  proof
    assume "take (length k) t = k"
    then have "t = k @ drop (length k) t"
      by (metis append_take_drop_id)
    with made show False
      by simp
  qed
  then show "(if take (length k) t = k then Some (drop (length k) t) else None) = None"
    by simp
qed (simp_all add: utf8_valid_ascii_prefix)




subsection \<open>Resolution of the agent strategy\<close>

lemma mismatch_not_unknown:
  "''openai_direct agent requires openai provider'' \<noteq> unknown_agent_type a"
  "''anthropic_direct agent requires anthropic provider'' \<noteq> unknown_agent_type a"
  by (simp_all add: unknown_agent_type_def)

text \<open>
  C6. The factory fails with the "unknown agent type" error for every tag that is none of
  \<open>langgraph\<close>, \<open>openai_direct\<close>, \<open>anthropic_direct\<close>; \<open>openai_direct\<close> fails with its
  provider-mismatch error for every provider other than \<open>openai\<close>, \<open>anthropic_direct\<close>
  for every provider other than \<open>anthropic\<close>. Where the SDK constructors accept the key
  and model, these are the only cases of the three errors, and \<open>langgraph\<close> yields a
  service for both providers.
\<close>

theorem create_resolution:
  "(agent_type \<notin> {''langgraph'', ''openai_direct'', ''anthropic_direct''} \<longrightarrow>
      create S agent_type provider api_key model
        = Inl (ValueError (unknown_agent_type agent_type)))
   \<and> (provider \<noteq> ''openai'' \<longrightarrow>
        create S ''openai_direct'' provider api_key model
          = Inl (ValueError ''openai_direct agent requires openai provider''))
   \<and> (provider \<noteq> ''anthropic'' \<longrightarrow>
        create S ''anthropic_direct'' provider api_key model
          = Inl (ValueError ''anthropic_direct agent requires anthropic provider''))
   \<and> (constructors_accept S api_key model \<longrightarrow>
        ((create S agent_type provider api_key model
            = Inl (ValueError (unknown_agent_type agent_type)))
           = (agent_type \<notin> {''langgraph'', ''openai_direct'', ''anthropic_direct''}))
      \<and> ((create S ''openai_direct'' provider api_key model
            = Inl (ValueError ''openai_direct agent requires openai provider''))
           = (provider \<noteq> ''openai''))
      \<and> ((create S ''anthropic_direct'' provider api_key model
            = Inl (ValueError ''anthropic_direct agent requires anthropic provider''))
           = (provider \<noteq> ''anthropic''))
      \<and> create S ''langgraph'' ''openai'' api_key model
          = Inr (LangGraphService (ChatOpenAI api_key (model_or model ''gpt-4-turbo-preview'')))
      \<and> create S ''langgraph'' ''anthropic'' api_key model
          = Inr (LangGraphService
              (ChatAnthropic api_key (model_or model ''claude-3-5-sonnet-20241022''))))"
proof (intro conjI impI)
  assume accept: "constructors_accept S api_key model"
  show "(create S agent_type provider api_key model
            = Inl (ValueError (unknown_agent_type agent_type)))
           = (agent_type \<notin> {''langgraph'', ''openai_direct'', ''anthropic_direct''})"
    using accept mismatch_not_unknown [of agent_type]
    by (auto simp: create_def constructors_accept_def LangGraphService_init_def
        OpenAIDirectService_init_def AnthropicDirectService_init_def construct_def)
  show "(create S ''openai_direct'' provider api_key model
            = Inl (ValueError ''openai_direct agent requires openai provider''))
           = (provider \<noteq> ''openai'')"
    using accept
    by (simp add: create_def constructors_accept_def OpenAIDirectService_init_def construct_def)
  show "(create S ''anthropic_direct'' provider api_key model
            = Inl (ValueError ''anthropic_direct agent requires anthropic provider''))
           = (provider \<noteq> ''anthropic'')"
    using accept
    by (simp add: create_def constructors_accept_def AnthropicDirectService_init_def
        construct_def)
  show "create S ''langgraph'' ''openai'' api_key model
          = Inr (LangGraphService (ChatOpenAI api_key (model_or model ''gpt-4-turbo-preview'')))"
    using accept
    by (simp add: create_def constructors_accept_def LangGraphService_init_def construct_def)
  show "create S ''langgraph'' ''anthropic'' api_key model
          = Inr (LangGraphService
              (ChatAnthropic api_key (model_or model ''claude-3-5-sonnet-20241022'')))"
    using accept
    by (simp add: create_def constructors_accept_def LangGraphService_init_def construct_def)
qed (simp_all add: create_def)

theorem create_resolution_witness:
  "constructors_accept example_sdk ''sk-test'' None
   \<and> create example_sdk ''assistants'' ''anthropic'' ''sk-test'' None
       = Inl (ValueError (unknown_agent_type ''assistants''))
   \<and> create example_sdk ''openai_direct'' ''anthropic'' ''sk-test'' None
       = Inl (ValueError ''openai_direct agent requires openai provider'')
   \<and> create example_sdk ''anthropic_direct'' ''openai'' ''sk-test'' None
       = Inl (ValueError ''anthropic_direct agent requires anthropic provider'')
   \<and> create example_sdk ''langgraph'' ''openai'' ''sk-test'' None
       = Inr (LangGraphService (ChatOpenAI ''sk-test'' ''gpt-4-turbo-preview''))
   \<and> create example_sdk ''langgraph'' ''anthropic'' ''sk-test'' None
       = Inr (LangGraphService (ChatAnthropic ''sk-test'' ''claude-3-5-sonnet-20241022''))"
  using create_resolution [where S = example_sdk and api_key = "''sk-test''" and model = None
      and agent_type = "''assistants''" and provider = "''anthropic''"]
    create_resolution [where S = example_sdk and api_key = "''sk-test''" and model = None
      and agent_type = "''assistants''" and provider = "''openai''"]
  by (simp add: constructors_accept_def example_sdk_def)

text \<open>A key that the SDK constructor refuses: the factory raises what the constructor raises.\<close>

lemma create_refused_key:
  "create example_sdk ''langgraph'' ''openai'' [] None = Inl (ValueError ''no api key'')"
  by (simp add: create_def LangGraphService_init_def construct_def example_sdk_def)

subsection \<open>Credential round trip\<close>

text \<open>
  C9. Under a key the cipher accepts, and with the cipher an authenticated encryption:
  for every credential string \<open>x\<close> (a well-formed \<open>str\<close>), \<open>encrypt_api_key\<close> returns
  a token from which \<open>decrypt_api_key\<close> returns \<open>x\<close>; for every token that was not made
  by encryption under this key (tampered, malformed) and for every token made under a
  different key, \<open>decrypt_api_key\<close> raises \<open>InvalidToken\<close>, so it returns no plaintext.
\<close>

theorem credential_round_trip:
  assumes "authenticated_encryption F" and "key_accepted F k"
  shows "(utf8_valid x \<longrightarrow>
            encrypt_api_key F k fresh x = Inr (encrypt F k fresh x)
          \<and> decrypt_api_key F k (encrypt F k fresh x) = Inr x)
       \<and> ((\<forall>fresh p. t \<noteq> encrypt F k fresh p) \<longrightarrow> decrypt_api_key F k t = Inl InvalidToken)
       \<and> (key_accepted F k' \<and> k' \<noteq> k \<longrightarrow>
            decrypt_api_key F k (encrypt F k' fresh' x') = Inl InvalidToken)"
proof (intro conjI impI)
  have fernet: "get_fernet F k = Inr k"
    using assms(2) by (simp add: get_fernet_def)
  have inverse: "decrypt F k (encrypt F k fresh x) = Some x"
    using assms unfolding authenticated_encryption_def by blast
  {
    assume x: "utf8_valid x"
    then have "utf8_valid (encrypt F k fresh x)"
      using assms unfolding authenticated_encryption_def by blast
    then show "encrypt_api_key F k fresh x = Inr (encrypt F k fresh x)"
      by (simp add: encrypt_api_key_def fernet decode_def)
    show "decrypt_api_key F k (encrypt F k fresh x) = Inr x"
      using x by (simp add: decrypt_api_key_def fernet inverse decode_def)
  }
  {
    assume "\<forall>fresh p. t \<noteq> encrypt F k fresh p"
    then have "decrypt F k t = None"
      using assms unfolding authenticated_encryption_def by blast
    then show "decrypt_api_key F k t = Inl InvalidToken"
      by (simp add: decrypt_api_key_def fernet)
  }
  {
    assume "key_accepted F k' \<and> k' \<noteq> k"
    then have "decrypt F k (encrypt F k' fresh' x') = None"
      using assms unfolding authenticated_encryption_def by blast
    then show "decrypt_api_key F k (encrypt F k' fresh' x') = Inl InvalidToken"
      by (simp add: decrypt_api_key_def fernet)
  }
qed

theorem credential_round_trip_witness:
  "utf8_valid ''sk-test''
   \<and> encrypt_api_key example_fernet ''K1'' ([], 0) ''sk-test'' = Inr ''K1sk-test''
   \<and> decrypt_api_key example_fernet ''K1'' ''K1sk-test'' = Inr ''sk-test''
   \<and> decrypt_api_key example_fernet ''K1'' ''tampered'' = Inl InvalidToken
   \<and> decrypt_api_key example_fernet ''K1'' ''K2sk-test'' = Inl InvalidToken"
  using credential_round_trip [OF example_fernet_authenticated, where k = "''K1''"
      and x = "''sk-test''" and fresh = "([], 0)" and t = "''tampered''" and k' = "''K2''"
      and fresh' = "([], 0)" and x' = "''sk-test''"]
  by (simp add: example_fernet_def byte_in_def)

subsection \<open>The history window\<close>



text \<open>
  Three messages created at the same time, under a database that returns equal rows in
  insertion order: the history has them latest-inserted first.
\<close>

lemma history_of_ties:
  "load_history example_engine
     ((example_db [])\<lparr>messages :=
        [\<lparr>msg_id = 1, msg_conversation_id = 1, msg_role = USER, msg_content = ''a'',
          msg_created_at = 5\<rparr>,
         \<lparr>msg_id = 2, msg_conversation_id = 1, msg_role = ASSISTANT, msg_content = ''b'',
          msg_created_at = 5\<rparr>,
         \<lparr>msg_id = 3, msg_conversation_id = 1, msg_role = USER, msg_content = ''c'',
          msg_created_at = 5\<rparr>]\<rparr>) 1
     = [(''user'', ''c''), (''assistant'', ''b''), (''user'', ''a'')]"
  by (simp add: load_history_def example_engine_def example_db_def)

subsection \<open>Ownership\<close>

text \<open>
  C5. Let conversation \<open>c\<close> belong to user \<open>A\<close> in the store \<open>db\<close> (whose conversation
  ids are a primary key), let \<open>B\<close> be another user, and let \<open>db0\<close> be a store with no
  conversation of that id. Then get, update title, delete, list messages and a chat turn
  in either mode, requested by \<open>B\<close> for the id of \<open>c\<close>, all raise the same
  \<open>HTTPException 404 "Conversation not found"\<close> on \<open>db\<close> as on \<open>db0\<close>, and leave the
  store as it was.
\<close>

theorem other_owner_is_not_found:
  assumes "distinct (map conv_id (conversations db))"
    and "c \<in> set (conversations db)" and "conv_user_id c = A" and "A \<noteq> B"
    and "\<forall>c' \<in> set (conversations db0). conv_id c' \<noteq> conv_id c"
    and "req_conversation_id request = conv_id c"
  shows "get_conversation G db (conv_id c) B = Inl (HTTPException 404 ''Conversation not found'')
       \<and> get_conversation G db0 (conv_id c) B = Inl (HTTPException 404 ''Conversation not found'')
       \<and> update_conversation fault now db (conv_id c) title B
           = (Inl (HTTPException 404 ''Conversation not found''), db)
       \<and> update_conversation fault now db0 (conv_id c) title B
           = (Inl (HTTPException 404 ''Conversation not found''), db0)
       \<and> delete_conversation fault db (conv_id c) B
           = (Inl (HTTPException 404 ''Conversation not found''), db)
       \<and> delete_conversation fault db0 (conv_id c) B
           = (Inl (HTTPException 404 ''Conversation not found''), db0)
       \<and> get_messages G db (conv_id c) B skip limit
           = Inl (HTTPException 404 ''Conversation not found'')
       \<and> get_messages G db0 (conv_id c) B skip limit
           = Inl (HTTPException 404 ''Conversation not found'')
       \<and> chat_stream E db request B = (Inl (HTTPException 404 ''Conversation not found''), db)
       \<and> chat_stream E db0 request B = (Inl (HTTPException 404 ''Conversation not found''), db0)
       \<and> chat_message E db request B = (Inl (HTTPException 404 ''Conversation not found''), db)
       \<and> chat_message E db0 request B = (Inl (HTTPException 404 ''Conversation not found''), db0)"
proof -
  have owned: "find (\<lambda>c'. conv_id c' = conv_id c \<and> conv_user_id c' = B) (conversations db) = None"
    using assms(1-4) by (intro find_other_owner) auto
  have absent: "find (\<lambda>c'. conv_id c' = conv_id c \<and> conv_user_id c' = B) (conversations db0) = None"
    using assms(5) by (rule find_absent)
  show ?thesis
    using not_found_everywhere [OF owned assms(6)] not_found_everywhere [OF absent assms(6)]
    by simp
qed

theorem other_owner_is_not_found_witness:
  "get_conversation example_engine (example_db ''K1sk-test'') 1 2
     = get_conversation example_engine ((example_db ''K1sk-test'')\<lparr>conversations := []\<rparr>) 1 2
   \<and> chat_stream (example_env ([''Hello''], None)) (example_db ''K1sk-test'') example_request 2
     = (Inl (HTTPException 404 ''Conversation not found''), example_db ''K1sk-test'')
   \<and> delete_conversation None (example_db ''K1sk-test'') 1 2
     = (Inl (HTTPException 404 ''Conversation not found''), example_db ''K1sk-test'')"
  using other_owner_is_not_found [where db = "example_db ''K1sk-test''"
      and c = "hd (conversations (example_db ''K1sk-test''))" and A = 1 and B = 2
      and ?db0.0 = "(example_db ''K1sk-test'')\<lparr>conversations := []\<rparr>"
      and request = example_request and fault = None and G = example_engine
      and E = "example_env ([''Hello''], None)"]
  by (simp add: example_db_def example_request_def)

subsection \<open>Missing and unusable credentials\<close>

text \<open>
  C8. A turn on a conversation the user owns, when the user has no credential for the
  conversation's provider, raises \<open>HTTPException 400 "No API key configured for ..."\<close> in
  both modes and leaves the store as it was; in particular the number of messages of the
  conversation is unchanged.
\<close>

theorem missing_credential_aborts:
  assumes "distinct (map conv_id (conversations db))"
    and "c \<in> set (conversations db)"
    and "conv_id c = req_conversation_id request" and "conv_user_id c = current_user"
    and "\<forall>k \<in> set (api_keys db).
           \<not> (key_user_id k = current_user \<and> key_provider k = conv_provider c)"
  shows "chat_stream E db request current_user =
           (Inl (HTTPException 400
              (''No API key configured for '' @ format_provider E (conv_provider c))), db)
       \<and> chat_message E db request current_user =
           (Inl (HTTPException 400
              (''No API key configured for '' @ format_provider E (conv_provider c))), db)
       \<and> length (filter (\<lambda>m. msg_conversation_id m = conv_id c)
                   (messages (snd (chat_stream E db request current_user))))
           = length (filter (\<lambda>m. msg_conversation_id m = conv_id c) (messages db))
       \<and> length (filter (\<lambda>m. msg_conversation_id m = conv_id c)
                   (messages (snd (chat_message E db request current_user))))
           = length (filter (\<lambda>m. msg_conversation_id m = conv_id c) (messages db))"
proof -
  have conv: "find (\<lambda>c. conv_id c = req_conversation_id request \<and> conv_user_id c = current_user)
                (conversations db) = Some c"
    using assms(1-4) by (intro find_unique) auto
  have key: "find (\<lambda>k. key_user_id k = current_user \<and> key_provider k = conv_provider c)
                (api_keys db) = None"
    using assms(5) by (auto simp: find_None_iff)
  show ?thesis
    by (simp add: chat_stream_def chat_message_def conv key)
qed

theorem missing_credential_aborts_witness:
  "chat_stream (example_env ([''Hello''], None)) ((example_db [])\<lparr>api_keys := []\<rparr>) example_request 1
     = (Inl (HTTPException 400 ''No API key configured for openai''),
        (example_db [])\<lparr>api_keys := []\<rparr>)
   \<and> chat_message (example_env ([''Hello''], None)) ((example_db [])\<lparr>api_keys := []\<rparr>) example_request 1
     = (Inl (HTTPException 400 ''No API key configured for openai''),
        (example_db [])\<lparr>api_keys := []\<rparr>)"
  using missing_credential_aborts [where db = "(example_db [])\<lparr>api_keys := []\<rparr>"
      and c = "hd (conversations (example_db []))" and request = example_request
      and current_user = 1 and E = "example_env ([''Hello''], None)"]
  by (simp add: example_db_def example_request_def example_env_def)

text \<open>
  C3 as stated fails: with a stored token that the cipher rejects, both routes end in the
  library's \<open>InvalidToken\<close> itself; no route turns it into an \<open>HTTPException\<close> that
  would tell the caller the credential is unusable.
\<close>

theorem invalid_token_is_uncaught:
  "chat_stream (example_env ([''Hello''], None)) (example_db ''K2sk-test'') example_request 1
     = (Inl InvalidToken, example_db ''K2sk-test'')
   \<and> chat_message (example_env ([''Hello''], None)) (example_db ''K2sk-test'') example_request 1
     = (Inl InvalidToken, example_db ''K2sk-test'')"
  by (simp add: chat_stream_def chat_message_def example_env_def example_db_def
      example_request_def example_fernet_def decrypt_api_key_def get_fernet_def byte_in_def)

text \<open>
  C3, amended. When the cipher rejects the stored token of the credential, the turn ends,
  in both modes, with \<open>InvalidToken\<close> raised out of the route handler, uncaught, before
  any message is written.
\<close>

theorem invalid_token_propagates:
  assumes "find (\<lambda>c. conv_id c = req_conversation_id request \<and> conv_user_id c = current_user)
             (conversations db) = Some conversation"
    and "find (\<lambda>k. key_user_id k = current_user \<and> key_provider k = conv_provider conversation)
             (api_keys db) = Some api_key_record"
    and "key_accepted (fernet_lib E) (ENCRYPTION_KEY E)"
    and "decrypt (fernet_lib E) (ENCRYPTION_KEY E) (key_encrypted_key api_key_record) = None"
  shows "chat_stream E db request current_user = (Inl InvalidToken, db)
       \<and> chat_message E db request current_user = (Inl InvalidToken, db)"
  using assms
  by (simp add: chat_stream_def chat_message_def decrypt_api_key_def get_fernet_def)

theorem invalid_token_propagates_witness:
  "decrypt (fernet_lib (example_env ([], None))) (ENCRYPTION_KEY (example_env ([], None)))
      ''tampered'' = None
   \<and> chat_stream (example_env ([], None)) (example_db ''tampered'') example_request 1
     = (Inl InvalidToken, example_db ''tampered'')
   \<and> chat_message (example_env ([], None)) (example_db ''tampered'') example_request 1
     = (Inl InvalidToken, example_db ''tampered'')"
  using invalid_token_propagates [where E = "example_env ([], None)"
      and db = "example_db ''tampered''" and request = example_request and current_user = 1
      and conversation = "hd (conversations (example_db ''tampered''))"
      and api_key_record = "hd (api_keys (example_db ''tampered''))"]
  by (simp add: example_env_def example_db_def example_request_def example_fernet_def byte_in_def)

subsection \<open>A stream that fails\<close>

text \<open>
  C1 as stated fails: after the chunks \<open>Hello\<close> and \<open>there\<close> and the failure \<open>boom\<close>,
  the assistant message stored is \<open>[Error: boom]\<close>, which does not contain the text
  accumulated before the failure.
\<close>

theorem failed_stream_drops_partial_text:
  "map msg_content (messages (snd (chat_stream (example_env ([''Hello'', '' there''], Some ''boom''))
       (example_db ''K1sk-test'') example_request 1))) = [''Hi'', ''[Error: boom]'']
   \<and> \<not> sublist ''Hello there'' ''[Error: boom]''"
  by (simp add: chat_stream_def example_env_def example_db_def example_request_def
      example_fernet_def decrypt_api_key_def get_fernet_def decode_def byte_in_def
      save_message_def commit_def add_message_def create_def generate_def on_exception_def
      load_history_def example_engine_def example_sdk_def construct_def
      OpenAIDirectService_init_def Let_def sublist_code)

text \<open>
  C1, amended. When the chunk sequence raises after zero or more chunks and the commit
  of the error path succeeds, the generator yields the frames of the chunks and then, as
  its last frame, the error frame \<open>data: Error: <str(e)>\<close>, which is not the \<open>[DONE]\<close>
  frame; and exactly one assistant message is appended, whose content is the marker
  \<open>[Error: <str(e)>]\<close> (the accumulated text is not stored).
\<close>

theorem failed_stream_persists_error_marker:
  assumes "chat E service (req_message request) history = (chunks, Some str_e)"
    and "fault_error_commit E = None"
  shows "generate E db request service history =
     ((map (\<lambda>chunk. Yield (frame chunk)) chunks @
         [Yield (frame (''Error: '' @ str_e)),
          Persisted \<lparr>msg_id = next_message_id db,
                     msg_conversation_id = req_conversation_id request,
                     msg_role = ASSISTANT, msg_content = ''[Error: '' @ str_e @ '']'',
                     msg_created_at = now_error E\<rparr>], None),
      db\<lparr>messages := messages db @
            [\<lparr>msg_id = next_message_id db,
              msg_conversation_id = req_conversation_id request,
              msg_role = ASSISTANT, msg_content = ''[Error: '' @ str_e @ '']'',
              msg_created_at = now_error E\<rparr>],
         next_message_id := next_message_id db + 1\<rparr>)
   \<and> frame (''Error: '' @ str_e) \<noteq> frame ''[DONE]''"
  using generate_failed [OF assms, of db] by (simp add: add_message_def frame_inj)

theorem failed_stream_persists_error_marker_witness:
  "chat (example_env ([''Hello''], Some ''boom'')) (OpenAIDirectService ''sk-test'' ''gpt-4-turbo-preview'')
      (req_message example_request) [] = ([''Hello''], Some ''boom'')
   \<and> fault_error_commit (example_env ([''Hello''], Some ''boom'')) = None
   \<and> generate (example_env ([''Hello''], Some ''boom'')) (example_db ''K1sk-test'') example_request
       (OpenAIDirectService ''sk-test'' ''gpt-4-turbo-preview'') []
     = (([Yield (frame ''Hello''), Yield (frame ''Error: boom''),
          Persisted \<lparr>msg_id = 1, msg_conversation_id = 1, msg_role = ASSISTANT,
                     msg_content = ''[Error: boom]'', msg_created_at = 12\<rparr>], None),
        (example_db ''K1sk-test'')\<lparr>messages :=
            [\<lparr>msg_id = 1, msg_conversation_id = 1, msg_role = ASSISTANT,
              msg_content = ''[Error: boom]'', msg_created_at = 12\<rparr>],
          next_message_id := 2\<rparr>)"
  using failed_stream_persists_error_marker [where E = "example_env ([''Hello''], Some ''boom'')"
      and service = "OpenAIDirectService ''sk-test'' ''gpt-4-turbo-preview''"
      and request = example_request and history = "[]" and chunks = "[''Hello'']"
      and str_e = "''boom''" and db = "example_db ''K1sk-test''"]
  by (simp add: example_env_def example_db_def example_request_def)

text \<open>
  C10. When the chunk sequence ends cleanly, the \<open>[DONE]\<close> frame is yielded before the
  assistant message is persisted, and when that commit fails the caller, who has had
  \<open>[DONE]\<close>, gets an error frame. The \<open>except\<close> branch then adds the error marker and
  commits, on the session whose commit has just failed and without \<open>db.rollback()\<close>:
  this commit raises \<open>PendingRollbackError\<close>, which leaves the generator, and no
  assistant message is stored for the turn. Here the agent answers \<open>Hello\<close>, \<open>there\<close>
  and the commit of the assistant message fails with \<open>disk full\<close>.
\<close>

theorem assistant_commit_failure_stores_nothing:
  "chat_stream
     ((example_env ([''Hello'', '' there''], None))\<lparr>fault_assistant_commit := Some ''disk full''\<rparr>)
     (example_db ''K1sk-test'') example_request 1
   = (Inr ([Yield (frame ''Hello''), Yield (frame '' there''), Yield (frame ''[DONE]''),
            Yield (frame ''Error: disk full'')],
           Some PendingRollbackError),
      (example_db ''K1sk-test'')\<lparr>messages :=
          [\<lparr>msg_id = 1, msg_conversation_id = 1, msg_role = USER, msg_content = ''Hi'',
            msg_created_at = 10\<rparr>],
        next_message_id := 2\<rparr>)"
  by (simp add: chat_stream_def example_env_def example_db_def example_request_def
      example_fernet_def decrypt_api_key_def get_fernet_def decode_def byte_in_def
      save_message_def commit_def add_message_def create_def generate_def on_exception_def
      load_history_def example_engine_def example_sdk_def construct_def
      OpenAIDirectService_init_def Let_def)

subsection \<open>The two modes\<close>

text \<open>
  C2 as stated fails: when the stream fails, the blocking mode appends the user message
  only, and the streaming mode the user message and an assistant message.
\<close>

theorem blocking_failure_persists_no_assistant:
  "map msg_role (messages (snd (chat_message (example_env ([''Hello''], Some ''boom''))
       (example_db ''K1sk-test'') example_request 1))) = [USER]
   \<and> map msg_role (messages (snd (chat_stream (example_env ([''Hello''], Some ''boom''))
       (example_db ''K1sk-test'') example_request 1))) = [USER, ASSISTANT]"
  by (simp add: chat_stream_def chat_message_def example_env_def example_db_def
      example_request_def example_fernet_def decrypt_api_key_def get_fernet_def decode_def
      byte_in_def save_message_def commit_def add_message_def create_def generate_def
      on_exception_def
      load_history_def example_engine_def example_sdk_def construct_def
      OpenAIDirectService_init_def Let_def)

text \<open>
  C2, amended. For a turn that reaches the agent and whose commits succeed: if the
  stream completes cleanly, both modes leave the same store, with exactly the user
  message and then one assistant message (the concatenated chunks) appended, in that
  order by creation time when the clock does not run backwards; if the stream fails, the
  streaming mode appends the user message and one assistant message holding the error
  marker, and the blocking mode appends the user message only.
\<close>

theorem modes_persist:
  assumes "find (\<lambda>c. conv_id c = req_conversation_id request \<and> conv_user_id c = current_user)
             (conversations db) = Some conversation"
    and "find (\<lambda>k. key_user_id k = current_user \<and> key_provider k = conv_provider conversation)
             (api_keys db) = Some api_key_record"
    and "decrypt_api_key (fernet_lib E) (ENCRYPTION_KEY E) (key_encrypted_key api_key_record)
           = Inr api_key"
    and "create (sdk E) (conv_agent_type conversation)
           (provider_value (conv_provider conversation)) api_key None = Inr service"
    and "chat E service (req_message request) (load_history (engine E) db (req_conversation_id request))
           = (chunks, failure)"
    and "fault_user_commit E = None" and "fault_assistant_commit E = None"
    and "fault_error_commit E = None"
    and "now_user E \<le> now_assistant E"
  shows "(case failure of
            None \<Rightarrow>
              snd (chat_stream E db request current_user)
                = snd (chat_message E db request current_user)
              \<and> messages (snd (chat_stream E db request current_user)) = messages db @
                  [\<lparr>msg_id = next_message_id db,
                    msg_conversation_id = req_conversation_id request,
                    msg_role = USER, msg_content = req_message request,
                    msg_created_at = now_user E\<rparr>,
                   \<lparr>msg_id = next_message_id db + 1,
                    msg_conversation_id = req_conversation_id request,
                    msg_role = ASSISTANT, msg_content = concat chunks,
                    msg_created_at = now_assistant E\<rparr>]
              \<and> sorted (map msg_created_at
                    [\<lparr>msg_id = next_message_id db,
                      msg_conversation_id = req_conversation_id request,
                      msg_role = USER, msg_content = req_message request,
                      msg_created_at = now_user E\<rparr>,
                     \<lparr>msg_id = next_message_id db + 1,
                      msg_conversation_id = req_conversation_id request,
                      msg_role = ASSISTANT, msg_content = concat chunks,
                      msg_created_at = now_assistant E\<rparr>])
          | Some str_e \<Rightarrow>
              messages (snd (chat_stream E db request current_user)) = messages db @
                  [\<lparr>msg_id = next_message_id db,
                    msg_conversation_id = req_conversation_id request,
                    msg_role = USER, msg_content = req_message request,
                    msg_created_at = now_user E\<rparr>,
                   \<lparr>msg_id = next_message_id db + 1,
                    msg_conversation_id = req_conversation_id request,
                    msg_role = ASSISTANT, msg_content = ''[Error: '' @ str_e @ '']'',
                    msg_created_at = now_error E\<rparr>]
              \<and> messages (snd (chat_message E db request current_user)) = messages db @
                  [\<lparr>msg_id = next_message_id db,
                    msg_conversation_id = req_conversation_id request,
                    msg_role = USER, msg_content = req_message request,
                    msg_created_at = now_user E\<rparr>])"
proof (cases failure)
  case None
  with assms show ?thesis
    using chat_stream_reaches_agent [OF assms(1,2,3,6,4)]
      chat_message_reaches_agent [OF assms(1,2,3,6,4,5)]
      generate_clean [of E service request "load_history (engine E) db (req_conversation_id request)" chunks
        "add_message db (now_user E) (req_conversation_id request) USER (req_message request)"]
    by (simp add: add_message_def)
next
  case (Some str_e)
  with assms show ?thesis
    using chat_stream_reaches_agent [OF assms(1,2,3,6,4)]
      chat_message_reaches_agent [OF assms(1,2,3,6,4,5)]
      generate_failed [of E service request "load_history (engine E) db (req_conversation_id request)" chunks
        str_e "add_message db (now_user E) (req_conversation_id request) USER (req_message request)"]
    by (simp add: add_message_def)
qed

theorem modes_persist_witness:
  "now_user (example_env ([''Hello'', '' there''], None))
     \<le> now_assistant (example_env ([''Hello'', '' there''], None))
   \<and> snd (chat_stream (example_env ([''Hello'', '' there''], None)) (example_db ''K1sk-test'')
          example_request 1)
     = snd (chat_message (example_env ([''Hello'', '' there''], None)) (example_db ''K1sk-test'')
          example_request 1)
   \<and> messages (snd (chat_stream (example_env ([''Hello'', '' there''], None))
          (example_db ''K1sk-test'') example_request 1))
     = [\<lparr>msg_id = 1, msg_conversation_id = 1, msg_role = USER, msg_content = ''Hi'',
          msg_created_at = 10\<rparr>,
        \<lparr>msg_id = 2, msg_conversation_id = 1, msg_role = ASSISTANT,
          msg_content = ''Hello there'', msg_created_at = 11\<rparr>]"
  using modes_persist [where E = "example_env ([''Hello'', '' there''], None)"
      and db = "example_db ''K1sk-test''" and request = example_request and current_user = 1
      and conversation = "hd (conversations (example_db ''K1sk-test''))"
      and api_key_record = "hd (api_keys (example_db ''K1sk-test''))"
      and api_key = "''sk-test''"
      and service = "OpenAIDirectService ''sk-test'' ''gpt-4-turbo-preview''"
      and chunks = "[''Hello'', '' there'']" and failure = None]
  by (auto simp: example_env_def example_db_def example_request_def example_fernet_def
      decrypt_api_key_def get_fernet_def decode_def byte_in_def create_def example_sdk_def
      construct_def OpenAIDirectService_init_def)

subsection \<open>What an upstream failure reports\<close>

text \<open>
  C4 as stated fails: the text of the upstream exception reaches the caller verbatim, as
  the detail of the blocking mode's 500 response and inside the streaming mode's error
  frame.
\<close>

theorem upstream_error_text_is_reported:
  "fst (chat_message (example_env ([''Hello''], Some ''401: bad key sk-test''))
       (example_db ''K1sk-test'') example_request 1)
     = Inl (HTTPException 500 ''401: bad key sk-test'')
   \<and> fst (chat_stream (example_env ([''Hello''], Some ''401: bad key sk-test''))
       (example_db ''K1sk-test'') example_request 1)
     = Inr ([Yield (frame ''Hello''), Yield (frame ''Error: 401: bad key sk-test''),
             Persisted \<lparr>msg_id = 2, msg_conversation_id = 1, msg_role = ASSISTANT,
                        msg_content = ''[Error: 401: bad key sk-test]'',
                        msg_created_at = 12\<rparr>], None)
   \<and> sublist ''401: bad key sk-test'' (frame ''Error: 401: bad key sk-test'')"
  by (simp add: chat_stream_def chat_message_def example_env_def example_db_def
      example_request_def example_fernet_def decrypt_api_key_def get_fernet_def decode_def
      byte_in_def save_message_def commit_def add_message_def create_def generate_def
      on_exception_def
      load_history_def example_engine_def example_sdk_def construct_def
      OpenAIDirectService_init_def Let_def frame_def sublist_code)

text \<open>
  C4, amended. For every upstream failure raised during a turn that reaches the agent,
  the text reported to the caller contains the exception text \<open>str(e)\<close> verbatim: the
  detail of the blocking mode's \<open>HTTPException 500\<close> is \<open>str(e)\<close>, and the streaming
  mode yields the frame \<open>data: Error: <str(e)>\<close>.
\<close>

theorem upstream_error_text_verbatim:
  assumes "find (\<lambda>c. conv_id c = req_conversation_id request \<and> conv_user_id c = current_user)
             (conversations db) = Some conversation"
    and "find (\<lambda>k. key_user_id k = current_user \<and> key_provider k = conv_provider conversation)
             (api_keys db) = Some api_key_record"
    and "decrypt_api_key (fernet_lib E) (ENCRYPTION_KEY E) (key_encrypted_key api_key_record)
           = Inr api_key"
    and "fault_user_commit E = None"
    and "create (sdk E) (conv_agent_type conversation)
           (provider_value (conv_provider conversation)) api_key None = Inr service"
    and "chat E service (req_message request) (load_history (engine E) db (req_conversation_id request))
           = (chunks, Some str_e)"
  shows "fst (chat_message E db request current_user) = Inl (HTTPException 500 str_e)
       \<and> (case fst (chat_stream E db request current_user) of
            Inl e \<Rightarrow> False
          | Inr (out, raised) \<Rightarrow> Yield (frame (''Error: '' @ str_e)) \<in> set out)
       \<and> sublist str_e (frame (''Error: '' @ str_e))"
proof (intro conjI)
  show "fst (chat_message E db request current_user) = Inl (HTTPException 500 str_e)"
    using chat_message_reaches_agent [OF assms] by (simp add: Let_def)
  show "case fst (chat_stream E db request current_user) of
            Inl e \<Rightarrow> False
          | Inr (out, raised) \<Rightarrow> Yield (frame (''Error: '' @ str_e)) \<in> set out"
    using chat_stream_reaches_agent [OF assms(1-5)]
      generate_failed_frame [OF assms(6),
        of "add_message db (now_user E) (req_conversation_id request) USER (req_message request)"]
    by (auto split: prod.splits)
  have "frame (''Error: '' @ str_e) = ''data: Error: '' @ str_e @ [nl, nl]"
    by (simp add: frame_def)
  then show "sublist str_e (frame (''Error: '' @ str_e))"
    by (metis sublist_appendI)
qed

theorem upstream_error_text_verbatim_witness:
  "fst (chat_message (example_env ([], Some ''rate limited'')) (example_db ''K1sk-test'')
       example_request 1) = Inl (HTTPException 500 ''rate limited'')
   \<and> sublist ''rate limited'' (frame ''Error: rate limited'')"
  using upstream_error_text_verbatim [where E = "example_env ([], Some ''rate limited'')"
      and db = "example_db ''K1sk-test''" and request = example_request and current_user = 1
      and conversation = "hd (conversations (example_db ''K1sk-test''))"
      and api_key_record = "hd (api_keys (example_db ''K1sk-test''))"
      and api_key = "''sk-test''"
      and service = "OpenAIDirectService ''sk-test'' ''gpt-4-turbo-preview''"
      and chunks = "[]" and str_e = "''rate limited''"]
  by (simp add: example_env_def example_db_def example_request_def example_fernet_def
      decrypt_api_key_def get_fernet_def decode_def byte_in_def create_def example_sdk_def
      construct_def OpenAIDirectService_init_def)

end
